theory Spec2Isabelle
  imports Complex_Main "HOL-Library.Sublist"
begin

section \<open>Python values and exceptions\<close>

text \<open>
  Every exception the modelled code can raise is a constructor of one datatype; a
  function that may raise returns \<open>error + 'a\<close>, with \<open>Inl\<close> for the exception. A method
  that mutates its receiver returns the receiver's final state beside its outcome, so
  that what an exception leaves behind is part of the model.
\<close>

text \<open>
  \<open>geometry_operators.Operator\<close>: the enumeration is not among the sources; these are the
  members the sources name.
\<close>

datatype Operator = INTERSECTION | UNION | COMPLEMENT | SHIFT

text \<open>
  The Python objects the modelled code handles. Nothing in the code enforces the type of
  an operand or of a field, so every field is a Python object again.
  \<^item> \<open>PyClass\<close> is a class object, known by its name.
  \<^item> \<open>CellObj\<close> and \<open>SurfaceObj\<close> are the domain objects (\<open>mcnpy.Cell\<close>, a surface), known
    by their \<open>number\<close>.
  \<^item> \<open>HalfSpace left operator right node cell\<close> holds the fields \<open>_left\<close>, \<open>_operator\<close>,
    \<open>_right\<close>, \<open>_node\<close>, \<open>_cell\<close>. The backing \<open>GeometryTree\<close> is kept by the one part of it
    the code reads, the fragment list of its operator slot
    (\<open>node.nodes["operator"].nodes\<close>); it is \<open>None\<close> when the half-space has no tree.
  \<^item> \<open>UnitHalfSpace divider side is_cell node cell\<close> holds \<open>_divider\<close>, \<open>_side\<close>,
    \<open>_is_cell\<close>, \<open>_node\<close> (the backing value node, kept by its token) and \<open>_cell\<close>.
\<close>

datatype pyobj =
    PyNone
  | PyInt int
  | PyStr string
  | PyClass string
  | CellObj int
  | SurfaceObj int
  | HalfSpace pyobj Operator pyobj "string list option" pyobj
  | UnitHalfSpace pyobj bool bool "string option" pyobj

datatype error =
    TypeError
  | ValueError
  | KeyError
  | NameError string
  | UnboundLocalError string
  | AttributeError string
  | UnknownElement int
  | UnsupportedFeature
  | MalformedInputError
  | IndexError
  | BrokenObjectLinkError string int string pyobj

section \<open>Isotope identifiers (montepy/data_inputs/isotope.py)\<close>










section \<open>Half-spaces (mcnpy/surfaces/half_space.py)\<close>

subsection \<open>Classes and names\<close>

text \<open>
  The class of an object, by name. \<open>UnitHalfSpace\<close> does not derive from \<open>HalfSpace\<close>; the
  subclasses of the surface class are surfaces.
\<close>

fun class_name :: "pyobj \<Rightarrow> string" where
  "class_name PyNone = ''NoneType''"
| "class_name (PyInt _) = ''int''"
| "class_name (PyStr _) = ''str''"
| "class_name (PyClass _) = ''type''"
| "class_name (CellObj _) = ''Cell''"
| "class_name (SurfaceObj _) = ''Surface''"
| "class_name (HalfSpace _ _ _ _ _) = ''HalfSpace''"
| "class_name (UnitHalfSpace _ _ _ _ _) = ''UnitHalfSpace''"

definition isinstance :: "pyobj \<Rightarrow> string \<Rightarrow> bool" where
  "isinstance x c = (class_name x = c)"

text \<open>
  A bare name that is neither a parameter nor a local of the function is looked up in
  the module's namespace. \<open>half_space.py\<close> fills its namespace with two star imports
  (\<open>mcnpy.errors\<close>, \<open>mcnpy.utilities\<close>) that are not among the sources, so the namespace
  is a parameter \<open>g\<close> of every function that reads such a name.
\<close>

definition lookup_name :: "(string \<rightharpoonup> pyobj) \<Rightarrow> string \<Rightarrow> error + pyobj" where
  "lookup_name g name = (case g name of None \<Rightarrow> Inl (NameError name) | Some v \<Rightarrow> Inr v)"

subsection \<open>Pointer resolution\<close>

text \<open>\<open>self._cell.number\<close>: cells and surfaces have a number, other objects do not.\<close>

fun number :: "pyobj \<Rightarrow> error + int" where
  "number (CellObj n) = Inr n"
| "number (SurfaceObj n) = Inr n"
| "number _ = Inl (AttributeError ''number'')"

text \<open>
  \<open>update_pointers(self, cells, surfaces, cell)\<close> of both classes. The containers are
  mappings: \<open>container[key]\<close> returns the value or raises \<open>KeyError\<close>, which the leaf
  turns into \<open>BrokenObjectLinkError\<close>. \<open>self._cell\<close> is assigned before the lookup, so
  it is set in the state an exception leaves behind.
\<close>

fun update_pointers ::
  "(pyobj \<rightharpoonup> pyobj) \<Rightarrow> (pyobj \<rightharpoonup> pyobj) \<Rightarrow> pyobj \<Rightarrow> pyobj \<Rightarrow> (error + unit) \<times> pyobj" where
  "update_pointers cells surfaces cell (UnitHalfSpace divider side is_cell node old_cell) =
     (let container = (if is_cell then cells else surfaces) in
      case container divider of
        Some obj \<Rightarrow> (Inr (), UnitHalfSpace obj side is_cell node cell)
      | None \<Rightarrow>
          (case number cell of
             Inl err \<Rightarrow> (Inl err, UnitHalfSpace divider side is_cell node cell)
           | Inr n \<Rightarrow>
               (if is_cell
                then (Inl (BrokenObjectLinkError ''Cell'' n ''Complement'' divider),
                      UnitHalfSpace divider side is_cell node cell)
                else (Inl (BrokenObjectLinkError ''Cell'' n ''Surface'' divider),
                      UnitHalfSpace divider side is_cell node cell))))"
| "update_pointers cells surfaces cell (HalfSpace left operator right node old_cell) =
     (case update_pointers cells surfaces cell left of
        (Inl err, left') \<Rightarrow> (Inl err, HalfSpace left' operator right node cell)
      | (Inr u, left') \<Rightarrow>
          (if right \<noteq> PyNone then
             (case update_pointers cells surfaces cell right of
                (res, right') \<Rightarrow> (res, HalfSpace left' operator right' node cell))
           else (Inr (), HalfSpace left' operator right node cell)))"
| "update_pointers cells surfaces cell obj = (Inl (AttributeError ''update_pointers''), obj)"

subsection \<open>The divider property\<close>


definition get_divider :: "pyobj \<Rightarrow> error + pyobj" where
  "get_divider self =
     (case self of
        UnitHalfSpace divider side is_cell node cell \<Rightarrow> Inr divider
      | _ \<Rightarrow> Inl (AttributeError ''divider''))"

subsection \<open>Boolean composition\<close>

text \<open>
  \<open>HalfSpace.__and__\<close>, \<open>__or__\<close> and \<open>__invert__\<close>. The constructor leaves \<open>node\<close> and
  \<open>_cell\<close> at \<open>None\<close>. \<open>__invert__\<close> has the single parameter \<open>self\<close>; its guard reads the
  name \<open>other\<close>, which is therefore looked up in the module's namespace.
\<close>

definition hs_and :: "pyobj \<Rightarrow> pyobj \<Rightarrow> error + pyobj" where
  "hs_and self other =
     (if \<not> isinstance other ''HalfSpace'' then Inl TypeError
      else Inr (HalfSpace self INTERSECTION other None PyNone))"

definition hs_or :: "pyobj \<Rightarrow> pyobj \<Rightarrow> error + pyobj" where
  "hs_or self other =
     (if \<not> isinstance other ''HalfSpace'' then Inl TypeError
      else Inr (HalfSpace self UNION other None PyNone))"

definition hs_invert :: "(string \<rightharpoonup> pyobj) \<Rightarrow> pyobj \<Rightarrow> error + pyobj" where
  "hs_invert g self =
     (case lookup_name g ''other'' of
        Inl err \<Rightarrow> Inl err
      | Inr other \<Rightarrow>
          (if \<not> isinstance other ''HalfSpace'' then Inl TypeError
           else Inr (HalfSpace self COMPLEMENT PyNone None PyNone)))"

text \<open>
  The expressions \<open>x & other\<close>, \<open>x | other\<close> and \<open>~x\<close> as the in-place operators
  evaluate them, with a \<open>HalfSpace\<close> for \<open>other\<close>: Python calls the method of the class of
  \<open>x\<close>. Only \<open>HalfSpace\<close> defines these methods (\<open>UnitHalfSpace\<close> defines none, and
  \<open>HalfSpace\<close> has no reflected method), so any other \<open>x\<close> raises \<open>TypeError\<close>.
\<close>

definition py_and :: "pyobj \<Rightarrow> pyobj \<Rightarrow> error + pyobj" where
  "py_and x other = (if isinstance x ''HalfSpace'' then hs_and x other else Inl TypeError)"

definition py_or :: "pyobj \<Rightarrow> pyobj \<Rightarrow> error + pyobj" where
  "py_or x other = (if isinstance x ''HalfSpace'' then hs_or x other else Inl TypeError)"

definition py_invert :: "(string \<rightharpoonup> pyobj) \<Rightarrow> pyobj \<Rightarrow> error + pyobj" where
  "py_invert g x = (if isinstance x ''HalfSpace'' then hs_invert g x else Inl TypeError)"

text \<open>
  \<open>HalfSpace.__iand__\<close> and \<open>__ior__\<close>. The result is the outcome (the object returned, or
  the exception) and the receiver as the call leaves it. \<open>self.right &= other\<close> calls
  \<open>__iand__\<close> of a \<open>HalfSpace\<close> and raises \<open>TypeError\<close> on anything else; the child is
  mutated in place, so what an exception in the child leaves behind stays in the
  receiver. The properties come from \<open>make_prop_pointer\<close>, which is not among the
  sources; they are taken to read and to store the field. \<open>_add_new_children_to_parent\<close> is no
  attribute of the class (the method is named \<open>_add_new_children_to_cell\<close>), so the call
  raises \<open>AttributeError\<close> and neither \<open>return self\<close> nor \<open>return sel\<close> is reached.
\<close>

fun hs_iand :: "(string \<rightharpoonup> pyobj) \<Rightarrow> pyobj \<Rightarrow> pyobj \<Rightarrow> (error + pyobj) \<times> pyobj" where
  "hs_iand g (HalfSpace left operator right node cell) other =
     (if \<not> isinstance other ''HalfSpace'' then
        (Inl TypeError, HalfSpace left operator right node cell)
      else
        (let left_leaf = isinstance left ''UnitHalfSpace'';
             right_leaf = ((right \<noteq> PyNone \<and> isinstance right ''UnitHalfSpace'') \<or> right = PyNone)
         in
         if left_leaf \<and> right_leaf then
           (if right \<noteq> PyNone then
              (case py_and right other of
                 Inl err \<Rightarrow> (Inl err, HalfSpace left operator right node cell)
               | Inr v \<Rightarrow> (Inr (HalfSpace left operator v node cell),
                           HalfSpace left operator v node cell))
            else
              (case py_invert g left of
                 Inl err \<Rightarrow> (Inl err, HalfSpace left operator right node cell)
               | Inr negated \<Rightarrow>
                   (case py_and negated other of
                      Inl err \<Rightarrow> (Inl err, HalfSpace left operator right node cell)
                    | Inr v \<Rightarrow> (Inr v, HalfSpace left operator right node cell))))
         else if isinstance right ''HalfSpace'' then
           (case hs_iand g right other of
              (Inl err, right') \<Rightarrow> (Inl err, HalfSpace left operator right' node cell)
            | (Inr v, right') \<Rightarrow>
                (Inl (AttributeError ''_add_new_children_to_parent''),
                 HalfSpace left operator v node cell))
         else (Inl TypeError, HalfSpace left operator right node cell)))"
| "hs_iand g self other = (Inl (AttributeError ''__iand__''), self)"

fun hs_ior :: "(string \<rightharpoonup> pyobj) \<Rightarrow> pyobj \<Rightarrow> pyobj \<Rightarrow> (error + pyobj) \<times> pyobj" where
  "hs_ior g (HalfSpace left operator right node cell) other =
     (if \<not> isinstance other ''HalfSpace'' then
        (Inl TypeError, HalfSpace left operator right node cell)
      else
        (let left_leaf = isinstance left ''UnitHalfSpace'';
             right_leaf = ((right \<noteq> PyNone \<and> isinstance right ''UnitHalfSpace'') \<or> right = PyNone)
         in
         if left_leaf \<and> right_leaf then
           (if right \<noteq> PyNone then
              (case py_or right other of
                 Inl err \<Rightarrow> (Inl err, HalfSpace left operator right node cell)
               | Inr v \<Rightarrow> (Inr (HalfSpace left operator v node cell),
                           HalfSpace left operator v node cell))
            else
              (case py_invert g left of
                 Inl err \<Rightarrow> (Inl err, HalfSpace left operator right node cell)
               | Inr negated \<Rightarrow>
                   (case py_or negated other of
                      Inl err \<Rightarrow> (Inl err, HalfSpace left operator right node cell)
                    | Inr v \<Rightarrow> (Inr v, HalfSpace left operator right node cell))))
         else if isinstance right ''HalfSpace'' then
           (case hs_ior g right other of
              (Inl err, right') \<Rightarrow> (Inl err, HalfSpace left operator right' node cell)
            | (Inr v, right') \<Rightarrow>
                (Inl (AttributeError ''_add_new_children_to_parent''),
                 HalfSpace left operator v node cell))
         else (Inl TypeError, HalfSpace left operator right node cell)))"
| "hs_ior g self other = (Inl (AttributeError ''__ior__''), self)"


subsection \<open>Synchronising the operator slot\<close>

text \<open>
  Modelled from the spec: \<open>PaddingNode.format\<close> is not among the sources. A padding node
  is an ordered run of fragments (section 3) and renders as their text in order.
\<close>

definition padding_format :: "string list \<Rightarrow> string" where
  "padding_format nodes = concat nodes"

text \<open>
  \<open>str.isspace\<close>: the string is not empty and every character is white space (for
  one-byte characters: tab to carriage return, the separators 28 to 31, and the space).
\<close>

definition is_whitespace :: "char \<Rightarrow> bool" where
  "is_whitespace c =
     (let n = of_char c :: nat in n = 32 \<or> (9 \<le> n \<and> n \<le> 13) \<or> (28 \<le> n \<and> n \<le> 31))"

definition isspace :: "string \<Rightarrow> bool" where
  "isspace str = (str \<noteq> [] \<and> list_all is_whitespace str)"

text \<open>\<open>n.replace("#", " ").replace(":", " ")\<close> on one fragment.\<close>

definition replace_symbols :: "string \<Rightarrow> string" where
  "replace_symbols n = map (\<lambda>c. if c = CHR ''#'' \<or> c = CHR '':'' then CHR '' '' else c) n"

text \<open>
  The loop of \<open>__switch_operator\<close> for a bound \<open>midpoint\<close>:
  \<open>for i, node in enumerate(nodes): if total_len + len(node) >= midpoint: break;
  total_len += len(node)\<close>. The result is the last binding of \<open>(i, node)\<close> (\<open>None\<close> when
  the list is empty and the names stay unbound) and \<open>total_len\<close>.
\<close>

fun midpoint_scan ::
  "nat \<Rightarrow> nat \<Rightarrow> nat \<Rightarrow> string list \<Rightarrow> (nat \<times> string) option \<Rightarrow> (nat \<times> string) option \<times> nat" where
  "midpoint_scan midpoint total_len i [] bound = (bound, total_len)"
| "midpoint_scan midpoint total_len i (node # rest) bound =
     (if total_len + length node \<ge> midpoint then (Some (i, node), total_len)
      else midpoint_scan midpoint (total_len + length node) (Suc i) rest (Some (i, node)))"

text \<open>
  \<open>HalfSpace.__switch_operator(new_symbol)\<close> on the fragment list of the operator slot;
  the result is the outcome and the list as the call leaves it. \<open>midpoint\<close> is assigned
  in the \<open>":"\<close> branch only, so for every other symbol the first read of it raises
  \<open>UnboundLocalError\<close>: in the loop condition when the list has a fragment, in
  \<open>index = midpoint - total_len\<close> when it has none. For \<open>"#"\<close> the assignment to
  \<open>_nodes[-1]\<close> comes first and raises \<open>IndexError\<close> on an empty list. In the \<open>":"\<close>
  branch an empty list leaves \<open>node\<close> unbound in the last statement. The subtraction
  \<open>midpoint - total_len\<close> is never negative there (\<open>total_len\<close> stays below \<open>midpoint\<close>
  until the \<open>break\<close>).
\<close>

definition switch_operator :: "string \<Rightarrow> string list \<Rightarrow> (error + unit) \<times> string list" where
  "switch_operator new_symbol nodes =
     (let nodes1 = map replace_symbols nodes in
      if new_symbol = ''#'' then
        (if nodes1 = [] then (Inl IndexError, nodes1)
         else (Inl (UnboundLocalError ''midpoint''),
               nodes1[length nodes1 - 1 := butlast (last nodes1) @ ''#'']))
      else if new_symbol = '':'' then
        (let output = padding_format nodes1;
             midpoint = length output div 2
         in case midpoint_scan midpoint 0 0 nodes1 None of
              (None, total_len) \<Rightarrow> (Inl (UnboundLocalError ''node''), nodes1)
            | (Some (i, node), total_len) \<Rightarrow>
                (let index = midpoint - total_len
                 in (Inr (), nodes1[i := take index node @ '':'' @ drop (index + 1) node])))
      else (Inl (UnboundLocalError ''midpoint''), nodes1))"

text \<open>
  \<open>HalfSpace._update_operator\<close>, on the operator and the backing tree.
  \<open>_generate_default_tree\<close> is \<open>pass\<close>, so a half-space without a tree fails at
  \<open>self.node.nodes\<close>.
\<close>

definition update_operator ::
  "Operator \<Rightarrow> string list option \<Rightarrow> (error + unit) \<times> string list option" where
  "update_operator operator node =
     (case node of
        None \<Rightarrow> (Inl (AttributeError ''nodes''), None)
      | Some nodes \<Rightarrow>
          (let output = padding_format nodes;
               switch = (\<lambda>new_symbol.
                  case switch_operator new_symbol nodes of (res, nodes') \<Rightarrow> (res, Some nodes'))
           in case operator of
                INTERSECTION \<Rightarrow> (if \<not> isspace output then switch '' '' else (Inr (), node))
              | UNION \<Rightarrow> (if CHR '':'' \<notin> set output then switch '':'' else (Inr (), node))
              | COMPLEMENT \<Rightarrow> (if CHR ''#'' \<notin> set output then switch ''#'' else (Inr (), node))
              | SHIFT \<Rightarrow> (Inr (), node)))"

text \<open>
  \<open>_update_values\<close> of both classes. The leaf's method writes through the setters of its
  value node, which are not among the sources: it is the parameter \<open>leaf\<close>. \<open>if
  self.right:\<close> is false for \<open>None\<close> only (neither class defines a truth value).
\<close>

fun update_values ::
  "(pyobj \<Rightarrow> (error + unit) \<times> pyobj) \<Rightarrow> pyobj \<Rightarrow> (error + unit) \<times> pyobj" where
  "update_values leaf (HalfSpace left operator right node cell) =
     (case update_operator operator node of
        (Inl err, node') \<Rightarrow> (Inl err, HalfSpace left operator right node' cell)
      | (Inr u, node') \<Rightarrow>
          (case update_values leaf left of
             (Inl err, left') \<Rightarrow> (Inl err, HalfSpace left' operator right node' cell)
           | (Inr u, left') \<Rightarrow>
               (if right \<noteq> PyNone then
                  (case update_values leaf right of
                     (res, right') \<Rightarrow> (res, HalfSpace left' operator right' node' cell))
                else (Inr (), HalfSpace left' operator right node' cell))))"
| "update_values leaf (UnitHalfSpace divider side is_cell node cell) =
     leaf (UnitHalfSpace divider side is_cell node cell)"
| "update_values leaf obj = (Inl (AttributeError ''_update_values''), obj)"

section \<open>Cards and line wrapping (mcnpy/mcnp_card.py, mcnpy/data_cards/data_card.py)\<close>

subsection \<open>The wrapping of the standard library\<close>

text \<open>
  \<open>wrap_string_for_mcnp\<close> hands the text to \<open>textwrap.TextWrapper(width, initial_indent,
  subsequent_indent).wrap\<close> of Python's standard library (as of CPython 3.11), with
  every other option at its
  default (long words are broken, white space at the ends of a line is dropped, no limit
  on the lines). \<open>wrap\<close> splits the text into chunks (\<open>_split_chunks\<close>: a regular
  expression, here the parameter \<open>split_chunks\<close>) and lays the chunks out with
  \<open>_wrap_chunks\<close>, which is modelled below statement by statement. The library keeps the
  chunks on a reversed stack; the model keeps them in reading order, the next chunk
  first.
\<close>

text \<open>\<open>chunk.strip() == ''\<close>: the chunk holds white space only.\<close>

definition is_blank :: "string \<Rightarrow> bool" where
  "is_blank chunk = list_all is_whitespace chunk"

text \<open>Python's \<open>s[:e]\<close> and \<open>s[e:]\<close>; a negative \<open>e\<close> counts from the end.\<close>

definition py_take :: "int \<Rightarrow> string \<Rightarrow> string" where
  "py_take e str = (if 0 \<le> e then take (nat e) str else take (nat (int (length str) + e)) str)"

definition py_drop :: "int \<Rightarrow> string \<Rightarrow> string" where
  "py_drop e str = (if 0 \<le> e then drop (nat e) str else drop (nat (int (length str) + e)) str)"

text \<open>
  \<open>chunk.rfind('-', 0, space_left)\<close>: the highest index below \<open>space_left\<close> that holds a
  hyphen, or \<open>-1\<close>.
\<close>

fun rfind_from :: "string \<Rightarrow> nat \<Rightarrow> int" where
  "rfind_from str 0 = - 1"
| "rfind_from str (Suc i) = (if i < length str \<and> str ! i = CHR ''-'' then int i else rfind_from str i)"

definition rfind_hyphen :: "string \<Rightarrow> int \<Rightarrow> int" where
  "rfind_hyphen chunk space_left = rfind_from chunk (min (nat space_left) (length chunk))"

text \<open>
  The inner loop \<open>while chunks: l = len(chunks[-1]); if cur_len + l <= width:
  cur_line.append(chunks.pop()); cur_len += l; else: break\<close>.
\<close>

fun fill_line :: "int \<Rightarrow> string list \<Rightarrow> nat \<Rightarrow> string list \<Rightarrow> string list \<times> nat \<times> string list" where
  "fill_line width cur_line cur_len [] = (cur_line, cur_len, [])"
| "fill_line width cur_line cur_len (chunk # chunks) =
     (if int (cur_len + length chunk) \<le> width
      then fill_line width (cur_line @ [chunk]) (cur_len + length chunk) chunks
      else (cur_line, cur_len, chunk # chunks))"

text \<open>
  \<open>_handle_long_word\<close> with \<open>break_long_words\<close> and \<open>break_on_hyphens\<close> set, on a stack
  whose top is \<open>chunk\<close>: the new current line and the new stack.
\<close>

definition handle_long_word ::
  "int \<Rightarrow> string list \<Rightarrow> nat \<Rightarrow> string \<Rightarrow> string list \<Rightarrow> string list \<times> string list" where
  "handle_long_word width cur_line cur_len chunk chunks =
     (let space_left = (if width < 1 then 1 else width - int cur_len);
          hyphen = rfind_hyphen chunk space_left;
          end = (if int (length chunk) > space_left \<and> hyphen > 0
                    \<and> list_ex (\<lambda>c. c \<noteq> CHR ''-'') (py_take hyphen chunk)
                 then hyphen + 1 else space_left)
      in (cur_line @ [py_take end chunk], py_drop end chunk # chunks))"

text \<open>
  One pass of the outer loop of \<open>_wrap_chunks\<close> over a non-empty stack, for the width
  left beside the indent: the chunks of the finished line and the stack it leaves.
  \<open>started\<close> says whether a line was emitted before (\<open>if lines\<close>).
\<close>

definition wrap_line :: "int \<Rightarrow> bool \<Rightarrow> string list \<Rightarrow> string list \<times> string list" where
  "wrap_line width started chunks =
     (let chunks1 = (if is_blank (hd chunks) \<and> started then tl chunks else chunks);
          (cur_line, cur_len, chunks2) = fill_line width [] 0 chunks1;
          (cur_line2, chunks3) =
             (if chunks2 \<noteq> [] \<and> int (length (hd chunks2)) > width
              then handle_long_word width cur_line cur_len (hd chunks2) (tl chunks2)
              else (cur_line, chunks2));
          cur_line3 = (if cur_line2 \<noteq> [] \<and> is_blank (last cur_line2)
                       then butlast cur_line2 else cur_line2)
      in (cur_line3, chunks3))"

text \<open>
  The outer loop \<open>while chunks:\<close>. Nothing bounds it when the indent leaves no room
  (an empty chunk is then broken again and again), so it is a partial function: \<open>None\<close>
  is the run that never returns.
\<close>

partial_function (option) wrap_loop ::
  "nat \<Rightarrow> string \<Rightarrow> string \<Rightarrow> string list \<Rightarrow> string list \<Rightarrow> string list option" where
  "wrap_loop self_width initial_indent subsequent_indent chunks lines =
     (if chunks = [] then Some lines
      else
        (let indent = (if lines \<noteq> [] then subsequent_indent else initial_indent);
             width = int self_width - int (length indent);
             (cur_line, rest) = wrap_line width (lines \<noteq> []) chunks
         in wrap_loop self_width initial_indent subsequent_indent rest
              (if cur_line \<noteq> [] then lines @ [indent @ concat cur_line] else lines)))"

text \<open>\<open>_wrap_chunks\<close>: a width that is not positive raises \<open>ValueError\<close>.\<close>

definition wrap_chunks ::
  "int \<Rightarrow> string \<Rightarrow> string \<Rightarrow> string list \<Rightarrow> (error + string list) option" where
  "wrap_chunks self_width initial_indent subsequent_indent chunks =
     (if self_width \<le> 0 then Some (Inl ValueError)
      else map_option Inr
             (wrap_loop (nat self_width) initial_indent subsequent_indent chunks []))"

subsection \<open>The wrapping utility\<close>

text \<open>
  \<open>MCNP_Card.wrap_string_for_mcnp(string, mcnp_version, is_first_line)\<close>. The module
  \<open>mcnpy.input_parser.constants\<close> is not among the sources: \<open>get_max_line_length\<close>, which
  returns the line length of a version or raises \<open>UnsupportedFeature\<close>, and the constant
  \<open>BLANK_SPACE_CONTINUE\<close> are parameters. A version is the tuple of its numbers.
\<close>

definition wrap_string_for_mcnp ::
  "(string \<Rightarrow> string list) \<Rightarrow> (int list \<Rightarrow> error + int) \<Rightarrow> nat \<Rightarrow>
     string \<Rightarrow> int list \<Rightarrow> bool \<Rightarrow> (error + string list) option" where
  "wrap_string_for_mcnp split_chunks get_max_line_length BLANK_SPACE_CONTINUE
       str mcnp_version is_first_line =
     (case get_max_line_length mcnp_version of
        Inl err \<Rightarrow> Some (Inl err)
      | Inr line_length \<Rightarrow>
          (let indent_length = BLANK_SPACE_CONTINUE;
               initial_indent = (if is_first_line then 0 else indent_length)
           in wrap_chunks line_length (replicate initial_indent CHR '' '')
                (replicate indent_length CHR '' '') (split_chunks str)))"



text \<open>
  The parameters used to run the model. The line lengths are the ones the test
  \<open>test_get_line_numbers\<close> asserts, with \<open>UnsupportedFeature\<close> for every version it does
  not list; the indent is five blanks; a text without white space or hyphen is one
  chunk.
\<close>

definition tested_line_length :: "int list \<Rightarrow> error + int" where
  "tested_line_length version =
     (if version \<in> set [[5, 1, 60], [6, 1, 0]] then Inr 80
      else if version \<in> set [[6, 2, 0], [6, 2, 3], [6, 3, 0], [7, 4, 0]] then Inr 128
      else Inl UnsupportedFeature)"

definition one_chunk :: "string \<Rightarrow> string list" where
  "one_chunk text = filter (\<lambda>c. c \<noteq> []) [text]"

text \<open>What a pass of the outer loop makes smaller: the characters and the chunks left.\<close>

definition chunk_measure :: "string list \<Rightarrow> nat" where
  "chunk_measure chunks = length (concat chunks) + length chunks"

subsection \<open>Cards\<close>










section \<open>Numeric lists with shortcuts (section 4.4 of the specification)\<close>

text \<open>
  Modelled from the spec: the shortcut expander (\<open>syntax_node.ShortcutNode\<close> and the parser
  that feeds it) is not among the sources; only its test is. The definitions of this
  section follow the table and the validation rules of section 4.4. Values are real
  numbers; \<open>Jump\<close> is the placeholder marker.
\<close>

datatype entry = Value real | Jump

datatype shortcut = REPEAT | MULTIPLY | INTERPOLATE | LOG_INTERPOLATE | JUMP

datatype token = Number real | Shortcut "nat option" shortcut

text \<open>Modelled from the spec: decimal digits and their value.\<close>

definition is_digit :: "char \<Rightarrow> bool" where
  "is_digit c = (let n = of_char c :: nat in 48 \<le> n \<and> n \<le> 57)"

definition digits_value :: "string \<Rightarrow> nat" where
  "digits_value ds = foldl (\<lambda>acc c. 10 * acc + (of_char c - 48)) 0 ds"

text \<open>Modelled from the spec: shortcut letters are read in either case.\<close>

definition upper :: "char \<Rightarrow> char" where
  "upper c = (let n = of_char c :: nat in if 97 \<le> n \<and> n \<le> 122 then char_of (n - 32) else c)"

text \<open>
  Modelled from the spec: the words of a line are its runs of characters between white
  space; \<open>word\<close> collects the run being read.
\<close>

fun split_words :: "string \<Rightarrow> string \<Rightarrow> string list" where
  "split_words word [] = (if word = [] then [] else [word])"
| "split_words word (c # rest) =
     (if is_whitespace c then (if word = [] then [] else [word]) @ split_words [] rest
      else split_words (word @ [c]) rest)"

text \<open>
  Modelled from the spec: a numeric literal is an optional sign, digits, and an optional
  fraction. Any other word that is no shortcut is unparsable (malformed input).
\<close>

definition parse_number :: "string \<Rightarrow> real option" where
  "parse_number word =
     (let (sign, body) =
            (case word of
               c # rest \<Rightarrow> (if c = CHR ''-'' then (- 1, rest)
                            else if c = CHR ''+'' then (1, rest) else (1, word))
             | [] \<Rightarrow> (1, word));
          whole = takeWhile is_digit body;
          after = dropWhile is_digit body
      in if whole = [] then None
         else if after = [] then Some (sign * real (digits_value whole))
         else if hd after = CHR ''.'' \<and> list_all is_digit (tl after)
         then Some (sign * (real (digits_value whole)
                + real (digits_value (tl after)) / 10 ^ length (tl after)))
         else None)"

text \<open>
  Modelled from the spec: the token shapes of the table, \<open>nR\<close>, \<open>nM\<close>, \<open>nI\<close>, \<open>nILOG\<close>,
  \<open>nJ\<close>, with the leading count \<open>n\<close> optional.
\<close>

definition shortcut_of :: "string \<Rightarrow> shortcut option" where
  "shortcut_of letters =
     (if letters = ''R'' then Some REPEAT
      else if letters = ''M'' then Some MULTIPLY
      else if letters = ''I'' then Some INTERPOLATE
      else if letters = ''ILOG'' then Some LOG_INTERPOLATE
      else if letters = ''J'' then Some JUMP
      else None)"

definition lex_word :: "string \<Rightarrow> token option" where
  "lex_word word =
     (let count = takeWhile is_digit word;
          letters = map upper (dropWhile is_digit word)
      in case shortcut_of letters of
           Some kind \<Rightarrow> Some (Shortcut (if count = [] then None else Some (digits_value count)) kind)
         | None \<Rightarrow> map_option Number (parse_number word))"

fun lex_words :: "string list \<Rightarrow> error + token list" where
  "lex_words [] = Inr []"
| "lex_words (word # rest) =
     (case lex_word word of
        None \<Rightarrow> Inl MalformedInputError
      | Some t \<Rightarrow> (case lex_words rest of Inl err \<Rightarrow> Inl err | Inr ts \<Rightarrow> Inr (t # ts)))"

text \<open>
  Modelled from the spec: the value a repeat, multiply or interpolate shortcut works on
  is the last expanded entry; there is none at the start of the list or behind a
  placeholder.
\<close>

definition previous_value :: "entry list \<Rightarrow> real option" where
  "previous_value out =
     (if out = [] then None else (case last out of Value v \<Rightarrow> Some v | Jump \<Rightarrow> None))"

text \<open>
  Modelled from the spec: \<open>n\<close> evenly spaced values strictly between the two endpoints,
  and the same with geometric spacing.
\<close>

definition linear_points :: "real \<Rightarrow> real \<Rightarrow> nat \<Rightarrow> real list" where
  "linear_points a b n = map (\<lambda>k. a + real k * ((b - a) / real (n + 1))) [1..<Suc n]"

definition log_points :: "real \<Rightarrow> real \<Rightarrow> nat \<Rightarrow> real list" where
  "log_points a b n = map (\<lambda>k. a * (b / a) powr (real k / real (n + 1))) [1..<Suc n]"

text \<open>Modelled from the spec: the count defaults to one.\<close>

definition count_or_one :: "nat option \<Rightarrow> nat" where
  "count_or_one n = (case n of None \<Rightarrow> 1 | Some k \<Rightarrow> k)"

text \<open>
  Modelled from the spec: the expansion rules of the table, over the tokens still to
  read and the entries expanded so far. A repeat, multiply or interpolate shortcut
  without a previous value is malformed; so are a multiply without its factor, an
  interpolation without a following end value, and a logarithmic interpolation between
  endpoints that are not both positive.
\<close>

fun expand :: "token list \<Rightarrow> entry list \<Rightarrow> error + entry list" where
  "expand [] out = Inr out"
| "expand (Number v # rest) out = expand rest (out @ [Value v])"
| "expand (Shortcut n JUMP # rest) out = expand rest (out @ replicate (count_or_one n) Jump)"
| "expand (Shortcut n REPEAT # rest) out =
     (case previous_value out of
        None \<Rightarrow> Inl MalformedInputError
      | Some v \<Rightarrow> expand rest (out @ replicate (count_or_one n) (Value v)))"
| "expand (Shortcut n MULTIPLY # rest) out =
     (case n of
        None \<Rightarrow> Inl MalformedInputError
      | Some factor \<Rightarrow>
          (case previous_value out of
             None \<Rightarrow> Inl MalformedInputError
           | Some v \<Rightarrow> expand rest (out @ [Value (v * real factor)])))"
| "expand (Shortcut n INTERPOLATE # Number b # rest) out =
     (case previous_value out of
        None \<Rightarrow> Inl MalformedInputError
      | Some a \<Rightarrow>
          expand rest (out @ map Value (linear_points a b (count_or_one n)) @ [Value b]))"
| "expand (Shortcut n LOG_INTERPOLATE # Number b # rest) out =
     (case previous_value out of
        None \<Rightarrow> Inl MalformedInputError
      | Some a \<Rightarrow>
          (if 0 < a \<and> 0 < b
           then expand rest (out @ map Value (log_points a b (count_or_one n)) @ [Value b])
           else Inl MalformedInputError))"
| "expand (Shortcut n INTERPOLATE # rest) out = Inl MalformedInputError"
| "expand (Shortcut n LOG_INTERPOLATE # rest) out = Inl MalformedInputError"

text \<open>Modelled from the spec: parsing a numeric list is lexing its words and expanding them.\<close>

definition parse_list :: "string \<Rightarrow> error + entry list" where
  "parse_list text =
     (case lex_words (split_words [] text) of
        Inl err \<Rightarrow> Inl err
      | Inr tokens \<Rightarrow> expand tokens [])"

section \<open>Properties of the isotope identifiers\<close>










section \<open>Properties of the half-spaces\<close>

text \<open>
  C5, as the code has it. For a leaf owned by the cell numbered \<open>n\<close>, \<open>update_pointers\<close>
  looks the divider up in the cell namespace when the is-cell flag is set and in the
  surface namespace otherwise. An absent divider raises \<open>BrokenObjectLinkError\<close> naming
  the owner (\<open>"Cell"\<close>, \<open>n\<close>), the role, which is \<open>"Complement"\<close> for a cell divider and
  \<open>"Surface"\<close> for a surface divider, and the missing divider; a present one becomes the
  leaf's divider. Either way the leaf now knows its owner.
\<close>

theorem update_pointers_resolves_or_breaks:
  "update_pointers cells surfaces (CellObj n) (UnitHalfSpace divider side is_cell node old_cell) =
     (case (if is_cell then cells else surfaces) divider of
        None \<Rightarrow>
          (Inl (BrokenObjectLinkError ''Cell'' n (if is_cell then ''Complement'' else ''Surface'')
                  divider),
           UnitHalfSpace divider side is_cell node (CellObj n))
      | Some obj \<Rightarrow> (Inr (), UnitHalfSpace obj side is_cell node (CellObj n)))"
  by (simp split: option.splits)

text \<open>
  C5 as stated names the role of a missing cell divider \<open>"Cell"\<close>. For the complement leaf
  of cell 1 with the unknown divider 5 the error names the role \<open>"Complement"\<close>.
\<close>

theorem update_pointers_role_counterexample:
  "fst (update_pointers Map.empty Map.empty (CellObj 1)
          (UnitHalfSpace (PyInt 5) True True None PyNone))
     = Inl (BrokenObjectLinkError ''Cell'' 1 ''Complement'' (PyInt 5))
   \<and> fst (update_pointers Map.empty Map.empty (CellObj 1)
          (UnitHalfSpace (PyInt 5) True True None PyNone))
     \<noteq> Inl (BrokenObjectLinkError ''Cell'' 1 ''Cell'' (PyInt 5))"
  by simp



text \<open>
  C6 on the code. Where the module binds no name \<open>other\<close>, \<open>~h\<close> raises \<open>NameError\<close> for
  every half-space \<open>h\<close>: the guard copied from the binary operators reads \<open>other\<close>, which
  \<open>__invert__\<close> does not have. The complement node is never built.
\<close>

theorem hs_invert_raises_NameError:
  "g ''other'' = None \<Longrightarrow> hs_invert g self = Inl (NameError ''other'')"
  by (simp add: hs_invert_def lookup_name_def)

text \<open>The complement of the half-space \<open>1 -2\<close>, in a namespace without \<open>other\<close>.\<close>

theorem hs_invert_raises_NameError_witness:
  "hs_invert Map.empty
     (HalfSpace (UnitHalfSpace (PyInt 1) True False None PyNone) INTERSECTION
        (UnitHalfSpace (PyInt 2) False False None PyNone) None PyNone)
   = Inl (NameError ''other'')"
  using hs_invert_raises_NameError [of Map.empty] by simp

text \<open>
  C7. With a right-hand operand that is no \<open>HalfSpace\<close>, each of \<open>&\<close>, \<open>|\<close>, \<open>&=\<close> and
  \<open>|=\<close> on a \<open>HalfSpace\<close> raises \<open>TypeError\<close>, and the in-place operators leave the
  receiver as it was (\<open>&\<close> and \<open>|\<close> never assign to it).
\<close>

theorem composition_rejects_non_half_space:
  assumes "\<not> isinstance other ''HalfSpace''"
  shows "hs_and (HalfSpace left operator right node cell) other = Inl TypeError
       \<and> hs_or (HalfSpace left operator right node cell) other = Inl TypeError
       \<and> hs_iand g (HalfSpace left operator right node cell) other
           = (Inl TypeError, HalfSpace left operator right node cell)
       \<and> hs_ior g (HalfSpace left operator right node cell) other
           = (Inl TypeError, HalfSpace left operator right node cell)"
  using assms by (simp add: hs_and_def hs_or_def)

text \<open>The operators run on an integer and on a leaf, which is no \<open>HalfSpace\<close>.\<close>

theorem composition_rejects_non_half_space_witness:
  "hs_and (HalfSpace (UnitHalfSpace (PyInt 1) True False None PyNone) UNION
        (UnitHalfSpace (PyInt 2) False False None PyNone) None PyNone) (PyInt 3) = Inl TypeError
   \<and> hs_iand Map.empty (HalfSpace (UnitHalfSpace (PyInt 1) True False None PyNone) UNION
        (UnitHalfSpace (PyInt 2) False False None PyNone) None PyNone)
        (UnitHalfSpace (PyInt 3) True False None PyNone)
      = (Inl TypeError, HalfSpace (UnitHalfSpace (PyInt 1) True False None PyNone) UNION
        (UnitHalfSpace (PyInt 2) False False None PyNone) None PyNone)"
proof -
  have a: "\<not> isinstance (PyInt 3) ''HalfSpace''"
    and b: "\<not> isinstance (UnitHalfSpace (PyInt 3) True False None PyNone) ''HalfSpace''"
    by (simp_all add: isinstance_def)
  show ?thesis
    using composition_rejects_non_half_space [OF a]
      composition_rejects_non_half_space [OF b] by simp
qed


subsection \<open>The operator slot\<close>

lemmas operator_eval = update_operator_def switch_operator_def padding_format_def
  isspace_def is_whitespace_def replace_symbols_def Let_def

lemma switch_operator_space: "fst (switch_operator '' '' nodes) = Inl (UnboundLocalError ''midpoint'')"
  by (simp add: switch_operator_def Let_def)

lemma switch_operator_hash:
  "nodes \<noteq> [] \<Longrightarrow> fst (switch_operator ''#'' nodes) = Inl (UnboundLocalError ''midpoint'')"
  by (simp add: switch_operator_def Let_def)

lemma update_operator_intersection:
  "\<not> isspace (padding_format nodes) \<Longrightarrow>
     fst (update_operator INTERSECTION (Some nodes)) = fst (switch_operator '' '' nodes)"
  by (simp add: update_operator_def Let_def split: prod.splits)

lemma update_operator_complement:
  "CHR ''#'' \<notin> set (padding_format nodes) \<Longrightarrow>
     fst (update_operator COMPLEMENT (Some nodes)) = fst (switch_operator ''#'' nodes)"
  by (simp add: update_operator_def Let_def split: prod.splits)

lemma update_values_operator_error:
  "fst (update_operator operator node) = Inl err \<Longrightarrow>
     fst (update_values leaf (HalfSpace left operator right node cell)) = Inl err"
  by (cases "update_operator operator node") simp

text \<open>
  C4 on the code. When the operator has become intersection and the slot is not blank,
  or has become complement and the (non-empty) slot holds no \<open>#\<close>, the rewrite is
  attempted and raises \<open>UnboundLocalError\<close>: \<open>__switch_operator\<close> reads \<open>midpoint\<close>, which
  only its \<open>":"\<close> branch assigns. \<open>_update_values\<close> calls \<open>_update_operator\<close> first and
  passes the exception on, so no tree is produced to format.
\<close>

theorem update_operator_switch_raises:
  "(operator = INTERSECTION \<and> \<not> isspace (padding_format nodes)
      \<or> operator = COMPLEMENT \<and> CHR ''#'' \<notin> set (padding_format nodes) \<and> nodes \<noteq> [])
   \<Longrightarrow> fst (update_operator operator (Some nodes)) = Inl (UnboundLocalError ''midpoint'')
     \<and> fst (update_values leaf (HalfSpace left operator right (Some nodes) cell))
         = Inl (UnboundLocalError ''midpoint'')"
proof -
  assume h: "operator = INTERSECTION \<and> \<not> isspace (padding_format nodes)
      \<or> operator = COMPLEMENT \<and> CHR ''#'' \<notin> set (padding_format nodes) \<and> nodes \<noteq> []"
  then have "fst (update_operator operator (Some nodes)) = Inl (UnboundLocalError ''midpoint'')"
    using update_operator_intersection [of nodes] update_operator_complement [of nodes]
      switch_operator_space [of nodes] switch_operator_hash [of nodes]
    by metis
  then show ?thesis using update_values_operator_error by blast
qed

text \<open>
  The half-space parsed from \<open>1:2\<close> with its operator changed to intersection, and a
  blank slot whose operator became complement.
\<close>

theorem update_operator_switch_raises_witness:
  "fst (update_values (\<lambda>unit. (Inr (), unit))
          (HalfSpace (UnitHalfSpace (SurfaceObj 1) True False (Some ''1'') (CellObj 1))
             INTERSECTION
             (UnitHalfSpace (SurfaceObj 2) True False (Some ''2'') (CellObj 1))
             (Some ['':'']) (CellObj 1)))
     = Inl (UnboundLocalError ''midpoint'')
   \<and> fst (update_operator COMPLEMENT (Some ['' ''])) = Inl (UnboundLocalError ''midpoint'')"
proof -
  have a: "\<not> isspace (padding_format ['':''])"
    by (simp add: isspace_def padding_format_def is_whitespace_def)
  have b: "CHR ''#'' \<notin> set (padding_format ['' ''])" "['' ''] \<noteq> ([] :: string list)"
    by (simp_all add: padding_format_def)
  show ?thesis
    using update_operator_switch_raises [of INTERSECTION "['':'']"] a
      update_operator_switch_raises [of COMPLEMENT "['' '']"] b
    by simp
qed

text \<open>
  The \<open>":"\<close> branch runs to its end. With a fragment boundary on the midpoint the colon
  is appended to a fragment instead of replacing a blank, and the slot grows by one
  character; on the one-blank slot it replaces the blank.
\<close>

lemma update_operator_union_grows:
  "update_operator UNION (Some ['' '', '' '']) = (Inr (), Some ['' :'', '' ''])
   \<and> length (padding_format ['' :'', '' '']) = 3 \<and> length (padding_format ['' '', '' '']) = 2"
  by (simp add: operator_eval)

lemma update_operator_union_single:
  "update_operator UNION (Some ['' '']) = (Inr (), Some ['':''])"
  by (simp add: operator_eval)

text \<open>A slot whose text already shows the operator is not touched.\<close>

lemma update_operator_matching_unchanged:
  "(operator = INTERSECTION \<and> isspace (padding_format nodes))
     \<or> (operator = UNION \<and> CHR '':'' \<in> set (padding_format nodes))
     \<or> (operator = COMPLEMENT \<and> CHR ''#'' \<in> set (padding_format nodes))
     \<or> operator = SHIFT
   \<Longrightarrow> update_operator operator (Some nodes) = (Inr (), Some nodes)"
  by (auto simp: update_operator_def Let_def)


section \<open>Properties of the line wrapping\<close>

lemma py_take_drop: "py_take e str @ py_drop e str = str"
  by (simp add: py_take_def py_drop_def)

lemma length_py_take: "0 \<le> e \<Longrightarrow> int (length (py_take e str)) \<le> e"
  by (simp add: py_take_def)

lemma length_py_drop: "0 < e \<Longrightarrow> str \<noteq> [] \<Longrightarrow> length (py_drop e str) < length str"
  by (simp add: py_drop_def)

lemma rfind_from_less: "rfind_from str n < int n"
  by (induction n) auto

lemma rfind_hyphen_less: "0 \<le> space_left \<Longrightarrow> rfind_hyphen chunk space_left < space_left"
  using rfind_from_less [of chunk "min (nat space_left) (length chunk)"]
  by (simp add: rfind_hyphen_def)

lemma fill_line_spec:
  "fill_line width cur_line cur_len chunks = (cur_line', cur_len', rest) \<Longrightarrow>
     \<exists>popped. cur_line' = cur_line @ popped \<and> chunks = popped @ rest
        \<and> cur_len' = cur_len + length (concat popped)
        \<and> (int cur_len \<le> width \<longrightarrow> int cur_len' \<le> width)
        \<and> (rest \<noteq> [] \<longrightarrow> int (cur_len' + length (hd rest)) > width)"
proof (induction width cur_line cur_len chunks rule: fill_line.induct)
  case (1 width cur_line cur_len)
  then show ?case by simp
next
  case (2 width cur_line cur_len chunk chunks)
  show ?case
  proof (cases "int (cur_len + length chunk) \<le> width")
    case True
    with 2 obtain popped where
      p: "cur_line' = (cur_line @ [chunk]) @ popped" "chunks = popped @ rest"
        "cur_len' = cur_len + length chunk + length (concat popped)"
        "int cur_len' \<le> width"
        "rest \<noteq> [] \<longrightarrow> int (cur_len' + length (hd rest)) > width"
      by fastforce
    show ?thesis
      by (rule exI [of _ "chunk # popped"]) (use p in simp)
  next
    case False
    with 2 show ?thesis by (intro exI [of _ "[]"]) auto
  qed
qed


lemma handle_long_word_spec:
  assumes w: "1 \<le> width" and n: "int cur_len \<le> width" and long: "int (length chunk) > width"
    and h: "handle_long_word width cur_line cur_len chunk chunks = (cur_line2, chunks3)"
  shows "\<exists>e. 0 \<le> e \<and> e \<le> width - int cur_len \<and> (e = 0 \<longrightarrow> int cur_len = width)
           \<and> cur_line2 = cur_line @ [py_take e chunk] \<and> chunks3 = py_drop e chunk # chunks"
proof -
  define space_left where "space_left = width - int cur_len"
  define hyphen where "hyphen = rfind_hyphen chunk space_left"
  define e where "e = (if int (length chunk) > space_left \<and> hyphen > 0
                    \<and> list_ex (\<lambda>c. c \<noteq> CHR ''-'') (py_take hyphen chunk)
                 then hyphen + 1 else space_left)"
  have sl: "0 \<le> space_left" using n by (simp add: space_left_def)
  have "hyphen < space_left" unfolding hyphen_def by (rule rfind_hyphen_less [OF sl])
  then have e: "0 \<le> e" "e \<le> space_left" "e = 0 \<longrightarrow> space_left = 0"
    using sl by (auto simp: e_def)
  from w have "handle_long_word width cur_line cur_len chunk chunks
      = (cur_line @ [py_take e chunk], py_drop e chunk # chunks)"
    unfolding handle_long_word_def Let_def e_def hyphen_def space_left_def
    by (simp split del: if_split cong: if_cong)
  with h have "cur_line2 = cur_line @ [py_take e chunk]" "chunks3 = py_drop e chunk # chunks"
    by simp_all
  with e show ?thesis unfolding space_left_def by (intro exI [of _ e]) auto
qed

lemma chunk_measure_append:
  "chunk_measure (xs @ ys) = chunk_measure xs + chunk_measure ys"
  by (simp add: chunk_measure_def)

lemma chunk_measure_Cons:
  "chunk_measure (x # xs) = Suc (length x + chunk_measure xs)"
  by (simp add: chunk_measure_def)

lemma chunk_measure_pos: "xs \<noteq> [] \<Longrightarrow> 0 < chunk_measure xs"
  by (cases xs) (simp_all add: chunk_measure_Cons)

lemma concat_butlast_last: "xs \<noteq> [] \<Longrightarrow> concat xs = concat (butlast xs) @ last xs"
  by (induction xs) auto


lemma wrap_line_spec:
  assumes w: "1 \<le> width" and ne: "chunks \<noteq> []"
    and wl: "wrap_line width started chunks = (cur_line, rest)"
  shows "int (length (concat cur_line)) \<le> width
       \<and> chunk_measure rest < chunk_measure chunks
       \<and> (\<exists>a b. concat chunks = a @ concat cur_line @ b @ concat rest)"
proof -
  define chunks1 where
    "chunks1 = (if is_blank (hd chunks) \<and> started then tl chunks else chunks)"
  obtain cl n c2 where fl: "fill_line width [] 0 chunks1 = (cl, n, c2)"
    by (cases "fill_line width [] 0 chunks1") auto
  from fill_line_spec [OF fl] w have
    popped: "chunks1 = cl @ c2" "n = length (concat cl)" "int n \<le> width"
      "c2 \<noteq> [] \<longrightarrow> int (n + length (hd c2)) > width"
    by auto
  define long where "long = (c2 \<noteq> [] \<and> int (length (hd c2)) > width)"
  obtain cl2 c3 where hl:
    "(if long then handle_long_word width cl n (hd c2) (tl c2) else (cl, c2)) = (cl2, c3)"
    by (cases "if long then handle_long_word width cl n (hd c2) (tl c2) else (cl, c2)") auto
  from wl have res: "cur_line = (if cl2 \<noteq> [] \<and> is_blank (last cl2) then butlast cl2 else cl2)"
      "rest = c3"
    using fl hl [unfolded long_def] unfolding wrap_line_def Let_def chunks1_def [symmetric]
    by (simp_all split del: if_split)
  have drop: "\<exists>a. concat chunks = a @ concat chunks1"
    and m1: "chunk_measure chunks1 \<le> chunk_measure chunks"
    and m1': "chunks1 = [] \<longrightarrow> chunk_measure chunks1 < chunk_measure chunks"
    using ne by (cases chunks; auto simp: chunks1_def chunk_measure_def)+
  have mid: "int (length (concat cl2)) \<le> width \<and> chunk_measure c3 < chunk_measure chunks
      \<and> concat chunks1 = concat cl2 @ concat c3"
  proof (cases long)
    case True
    then obtain c cs where c2: "c2 = c # cs" and clong: "int (length c) > width"
      by (cases c2) (auto simp: long_def)
    from hl True c2 have "handle_long_word width cl n c cs = (cl2, c3)" by simp
    from handle_long_word_spec [OF w popped(3) clong this] obtain e where
      e: "0 \<le> e" "e \<le> width - int n" "e = 0 \<longrightarrow> int n = width"
        "cl2 = cl @ [py_take e c]" "c3 = py_drop e c # cs" by blast
    have len: "int (length (concat cl2)) \<le> width"
      using e(1,2,4) popped(2) length_py_take [OF e(1), of c] by simp
    have cat: "concat chunks1 = concat cl2 @ concat c3"
      using e(4,5) popped(1) c2 by (simp add: py_take_drop)
    have "chunk_measure c3 < chunk_measure chunks1"
    proof (cases "e = 0")
      case True
      with e(3) w popped(2) have "cl \<noteq> []" by auto
      then have "0 < chunk_measure cl" by (rule chunk_measure_pos)
      moreover have "chunk_measure c3 = chunk_measure c2"
        using True e(5) c2 by (simp add: chunk_measure_Cons py_drop_def)
      ultimately show ?thesis using popped(1) by (simp add: chunk_measure_append)
    next
      case False
      with e(1) have "0 < e" by simp
      moreover from clong w have "c \<noteq> []" by auto
      ultimately have "length (py_drop e c) < length c" by (rule length_py_drop)
      then have "chunk_measure c3 < chunk_measure c2"
        using e(5) c2 by (simp add: chunk_measure_Cons)
      then show ?thesis using popped(1) by (simp add: chunk_measure_append)
    qed
    with m1 len cat show ?thesis by simp
  next
    case False
    with hl have eq: "cl2 = cl" "c3 = c2" by simp_all
    have "chunk_measure c2 < chunk_measure chunks"
    proof (cases "cl = []")
      case True
      show ?thesis
      proof (cases "c2 = []")
        case True
        with \<open>cl = []\<close> popped(1) m1' show ?thesis by simp
      next
        case c2: False
        with popped(4) popped(2) True have "int (length (hd c2)) > width" by simp
        with c2 False show ?thesis by (simp add: long_def)
      qed
    next
      case False
      then have "0 < chunk_measure cl" by (rule chunk_measure_pos)
      with popped(1) m1 show ?thesis by (simp add: chunk_measure_append)
    qed
    with eq popped show ?thesis by simp
  qed
  have strip: "\<exists>b. concat cl2 = concat cur_line @ b" "length (concat cur_line) \<le> length (concat cl2)"
    using res(1) concat_butlast_last [of cl2] by (auto split: if_splits)
  from strip(1) obtain b where b: "concat cl2 = concat cur_line @ b" ..
  from drop obtain a where a: "concat chunks = a @ concat chunks1" ..
  have "concat chunks = a @ concat cur_line @ b @ concat rest"
    using a b mid res(2) by simp
  then have "\<exists>a b. concat chunks = a @ concat cur_line @ b @ concat rest" by blast
  with mid strip(2) res(2) show ?thesis by simp
qed


lemma wrap_loop_spec:
  assumes ini: "length initial_indent < w" and sub: "length subsequent_indent < w"
  shows "\<exists>new. wrap_loop w initial_indent subsequent_indent chunks lines = Some (lines @ new)
       \<and> (\<forall>k < length new. \<exists>piece.
             new ! k = (if lines = [] \<and> k = 0 then initial_indent else subsequent_indent) @ piece
           \<and> sublist piece (concat chunks) \<and> length (new ! k) \<le> w)"
proof (induction chunks arbitrary: lines rule: measure_induct_rule [where f = chunk_measure])
  case (less chunks)
  show ?case
  proof (cases "chunks = []")
    case True
    then show ?thesis by (subst wrap_loop.simps) simp
  next
    case False
    define indent where "indent = (if lines \<noteq> [] then subsequent_indent else initial_indent)"
    define width where "width = int w - int (length indent)"
    have w1: "1 \<le> width" using ini sub by (simp add: width_def indent_def)
    obtain cur_line rest where wl: "wrap_line width (lines \<noteq> []) chunks = (cur_line, rest)"
      by (cases "wrap_line width (lines \<noteq> []) chunks") auto
    from wrap_line_spec [OF w1 False wl] obtain a b where
      len: "int (length (concat cur_line)) \<le> width"
      and dec: "chunk_measure rest < chunk_measure chunks"
      and cat: "concat chunks = a @ concat cur_line @ b @ concat rest" by blast
    define lines' where
      "lines' = (if cur_line \<noteq> [] then lines @ [indent @ concat cur_line] else lines)"
    have step: "wrap_loop w initial_indent subsequent_indent chunks lines
        = wrap_loop w initial_indent subsequent_indent rest lines'"
      by (subst wrap_loop.simps)
        (simp add: False wl Let_def lines'_def flip: indent_def width_def)
    from less.IH [OF dec, of lines'] obtain new' where
      run: "wrap_loop w initial_indent subsequent_indent rest lines' = Some (lines' @ new')"
      and each: "\<And>k. k < length new' \<Longrightarrow> \<exists>piece.
             new' ! k = (if lines' = [] \<and> k = 0 then initial_indent else subsequent_indent) @ piece
           \<and> sublist piece (concat rest) \<and> length (new' ! k) \<le> w" by blast
    have sub_rest: "sublist piece (concat chunks)" if "sublist piece (concat rest)" for piece
    proof -
      from that obtain p q where "concat rest = p @ piece @ q" by (auto simp: sublist_def)
      with cat have "concat chunks = (a @ concat cur_line @ b @ p) @ piece @ q" by simp
      then show ?thesis unfolding sublist_def by blast
    qed
    show ?thesis
    proof (cases "cur_line = []")
      case True
      then have l: "lines' = lines" by (simp add: lines'_def)
      show ?thesis
      proof (intro exI [of _ new'] conjI allI impI)
        show "wrap_loop w initial_indent subsequent_indent chunks lines = Some (lines @ new')"
          using step run l by simp
      next
        fix k assume "k < length new'"
        from each [OF this] l sub_rest
        show "\<exists>piece. new' ! k
              = (if lines = [] \<and> k = 0 then initial_indent else subsequent_indent) @ piece
            \<and> sublist piece (concat chunks) \<and> length (new' ! k) \<le> w" by auto
      qed
    next
      case False
      then have l: "lines' = lines @ [indent @ concat cur_line]" by (simp add: lines'_def)
      have first: "sublist (concat cur_line) (concat chunks)"
        unfolding sublist_def using cat by blast
      have flen: "length (indent @ concat cur_line) \<le> w"
        using len by (simp add: width_def)
      show ?thesis
      proof (intro exI [of _ "(indent @ concat cur_line) # new'"] conjI allI impI)
        show "wrap_loop w initial_indent subsequent_indent chunks lines
            = Some (lines @ (indent @ concat cur_line) # new')"
          using step run l by simp
      next
        fix k assume k: "k < length ((indent @ concat cur_line) # new')"
        show "\<exists>piece. ((indent @ concat cur_line) # new') ! k
              = (if lines = [] \<and> k = 0 then initial_indent else subsequent_indent) @ piece
            \<and> sublist piece (concat chunks)
            \<and> length (((indent @ concat cur_line) # new') ! k) \<le> w"
        proof (cases k)
          case 0
          show ?thesis
          proof (cases "lines = []")
            case True
            with 0 first flen show ?thesis
              by (intro exI [of _ "concat cur_line"]) (simp add: indent_def)
          next
            case False
            with 0 first flen show ?thesis
              by (intro exI [of _ "concat cur_line"]) (simp add: indent_def)
          qed
        next
          case (Suc j)
          with k have "j < length new'" by simp
          from each [OF this] l obtain piece where
            "new' ! j = subsequent_indent @ piece" "sublist piece (concat rest)"
            "length (new' ! j) \<le> w" by auto
          with Suc sub_rest show ?thesis by (intro exI [of _ piece]) simp
        qed
      qed
    qed
  qed
qed


lemma wrap_loop_Nil: "wrap_loop w i s [] lines = Some lines"
  by (subst wrap_loop.simps) simp

lemma wrap_loop_Cons:
  "wrap_loop w i s (c # cs) lines =
     (let indent = (if lines \<noteq> [] then s else i);
          line = wrap_line (int w - int (length indent)) (lines \<noteq> []) (c # cs)
      in wrap_loop w i s (snd line)
           (if fst line \<noteq> [] then lines @ [indent @ concat (fst line)] else lines))"
  by (subst wrap_loop.simps) (simp add: Let_def split: prod.splits)

text \<open>
  C8, as the code has it. When \<open>get_max_line_length\<close> raises for the version, so does the
  wrapping utility. When it returns a line length above the continuation indent, the
  utility returns: every line is the indent of its position followed by a piece of the
  chunked text, and fits the line length. The indent of a continuation line is
  \<open>BLANK_SPACE_CONTINUE\<close> blanks; the indent of the first line is empty when
  \<open>is_first_line\<close> is true and \<open>BLANK_SPACE_CONTINUE\<close> blanks when it is false.
\<close>

theorem wrap_string_for_mcnp_fits:
  "case get_max_line_length mcnp_version of
     Inl err \<Rightarrow>
       wrap_string_for_mcnp split_chunks get_max_line_length BLANK_SPACE_CONTINUE
         str mcnp_version is_first_line = Some (Inl err)
   | Inr line_length \<Rightarrow>
       int BLANK_SPACE_CONTINUE < line_length \<longrightarrow>
       (\<exists>lines.
          wrap_string_for_mcnp split_chunks get_max_line_length BLANK_SPACE_CONTINUE
            str mcnp_version is_first_line = Some (Inr lines)
        \<and> (\<forall>k < length lines. \<exists>piece.
              lines ! k
                = replicate (if is_first_line \<and> k = 0 then 0 else BLANK_SPACE_CONTINUE) CHR '' ''
                  @ piece
            \<and> sublist piece (concat (split_chunks str))
            \<and> int (length (lines ! k)) \<le> line_length))"
proof (cases "get_max_line_length mcnp_version")
  case (Inl err)
  then show ?thesis by (simp add: wrap_string_for_mcnp_def)
next
  case (Inr line_length)
  have "\<exists>lines.
          wrap_string_for_mcnp split_chunks get_max_line_length BLANK_SPACE_CONTINUE
            str mcnp_version is_first_line = Some (Inr lines)
        \<and> (\<forall>k < length lines. \<exists>piece.
              lines ! k
                = replicate (if is_first_line \<and> k = 0 then 0 else BLANK_SPACE_CONTINUE) CHR '' ''
                  @ piece
            \<and> sublist piece (concat (split_chunks str))
            \<and> int (length (lines ! k)) \<le> line_length)"
    if room: "int BLANK_SPACE_CONTINUE < line_length"
  proof -
    define ini where
      "ini = replicate (if is_first_line then 0 else BLANK_SPACE_CONTINUE) CHR '' ''"
    define sub where "sub = replicate BLANK_SPACE_CONTINUE CHR '' ''"
    have "length ini < nat line_length" "length sub < nat line_length"
      using room by (auto simp: ini_def sub_def)
    from wrap_loop_spec [OF this, of "split_chunks str" "[]"] obtain new where
      run: "wrap_loop (nat line_length) ini sub (split_chunks str) [] = Some new"
      and each: "\<And>k. k < length new \<Longrightarrow> \<exists>piece.
             new ! k = (if k = 0 then ini else sub) @ piece
           \<and> sublist piece (concat (split_chunks str)) \<and> length (new ! k) \<le> nat line_length"
      by auto
    have res: "wrap_string_for_mcnp split_chunks get_max_line_length BLANK_SPACE_CONTINUE
            str mcnp_version is_first_line = Some (Inr new)"
      using Inr room run
      by (simp add: wrap_string_for_mcnp_def wrap_chunks_def Let_def ini_def sub_def)
    have "\<exists>piece. new ! k
                = replicate (if is_first_line \<and> k = 0 then 0 else BLANK_SPACE_CONTINUE) CHR '' ''
                  @ piece
            \<and> sublist piece (concat (split_chunks str))
            \<and> int (length (new ! k)) \<le> line_length" if "k < length new" for k
      using each [OF that] room by (auto simp: ini_def sub_def)
    with res show ?thesis by blast
  qed
  with Inr show ?thesis by simp
qed

text \<open>
  The utility run on a word of a hundred characters for version 5.1.60 (two lines, the
  second indented), and on a short word as a continuation line for version 6.2.0.
\<close>

theorem wrap_string_for_mcnp_fits_witness:
  "wrap_string_for_mcnp one_chunk tested_line_length 5 (replicate 100 CHR ''7'') [5, 1, 60] True
     = Some (Inr [replicate 80 CHR ''7'', replicate 5 CHR '' '' @ replicate 20 CHR ''7''])
   \<and> (\<exists>lines. wrap_string_for_mcnp one_chunk tested_line_length 5 ''f1'' [6, 2, 0] False
          = Some (Inr lines) \<and> length lines = 1 \<and> length (lines ! 0) = 7)
   \<and> wrap_string_for_mcnp one_chunk tested_line_length 5 ''f1'' [7, 0] True
     = Some (Inl UnsupportedFeature)"
proof -
  have r: "replicate 100 CHR ''7'' = CHR ''7'' # replicate 99 CHR ''7''"
    "replicate 20 CHR ''7'' = CHR ''7'' # replicate 19 CHR ''7''"
    by code_simp+
  have l2: "wrap_line 80 False [replicate 100 CHR ''7'']
      = ([replicate 80 CHR ''7''], [replicate 20 CHR ''7''])"
    by code_simp
  have l3: "wrap_line 75 True [replicate 20 CHR ''7''] = ([replicate 20 CHR ''7''], [])"
    by code_simp
  have "one_chunk (replicate 100 CHR ''7'') = [replicate 100 CHR ''7'']"
    unfolding one_chunk_def r by simp
  then have a: "wrap_string_for_mcnp one_chunk tested_line_length 5
       (replicate 100 CHR ''7'') [5, 1, 60] True
     = Some (Inr [replicate 80 CHR ''7'', replicate 5 CHR '' '' @ replicate 20 CHR ''7''])"
    by (simp add: wrap_string_for_mcnp_def wrap_chunks_def tested_line_length_def
         wrap_loop_Cons [of _ _ _ "replicate 100 CHR ''7''"]
         wrap_loop_Cons [of _ _ _ "replicate 20 CHR ''7''"] wrap_loop_Nil l2 l3 Let_def)
  have "wrap_line 123 False [''f1''] = ([''f1''], [])" by code_simp
  moreover have "replicate 5 CHR '' '' = ''     ''" by code_simp
  ultimately have b: "wrap_string_for_mcnp one_chunk tested_line_length 5 ''f1'' [6, 2, 0] False
     = Some (Inr [''     f1''])"
    by (simp add: wrap_string_for_mcnp_def wrap_chunks_def tested_line_length_def
        one_chunk_def wrap_loop_Cons wrap_loop_Nil)
  have v: "tested_line_length [5, 1, 60] = Inr 80" "tested_line_length [6, 2, 0] = Inr 128"
    "tested_line_length [7, 0] = Inl UnsupportedFeature"
    by (simp_all add: tested_line_length_def)
  show ?thesis
    using a b v
      wrap_string_for_mcnp_fits [where get_max_line_length = tested_line_length
          and mcnp_version = "[5, 1, 60]" and split_chunks = one_chunk and BLANK_SPACE_CONTINUE = 5
          and str = "replicate 100 CHR ''7''" and is_first_line = True]
      wrap_string_for_mcnp_fits [where get_max_line_length = tested_line_length
          and mcnp_version = "[6, 2, 0]" and split_chunks = one_chunk and BLANK_SPACE_CONTINUE = 5
          and str = "''f1''" and is_first_line = False]
      wrap_string_for_mcnp_fits [where get_max_line_length = tested_line_length
          and mcnp_version = "[7, 0]" and split_chunks = one_chunk and BLANK_SPACE_CONTINUE = 5
          and str = "''f1''" and is_first_line = True]
    by simp
qed

text \<open>
  C8 as stated promises an unindented first line within the line length for every text
  and version. As a continuation (\<open>is_first_line\<close> false) the word \<open>f1\<close> comes back behind
  five blanks, and for version 5.1.38, which the tests expect to be refused, no line
  comes back at all.
\<close>

theorem wrap_string_for_mcnp_counterexample:
  "wrap_string_for_mcnp one_chunk tested_line_length 5 ''f1'' [6, 2, 0] False
     = Some (Inr [''     f1''])
   \<and> wrap_string_for_mcnp one_chunk tested_line_length 5 ''f1'' [5, 1, 38] True
     = Some (Inl UnsupportedFeature)"
proof -
  have "wrap_line 123 False [''f1''] = ([''f1''], [])" by code_simp
  moreover have "replicate 5 CHR '' '' = ''     ''" by code_simp
  ultimately show ?thesis
    by (simp add: wrap_string_for_mcnp_def wrap_chunks_def tested_line_length_def
        one_chunk_def wrap_loop_Cons wrap_loop_Nil)
qed


section \<open>Properties of the cards\<close>










section \<open>Properties of the shortcut expansion\<close>

lemma cube_roots: "(1000::real) powr (1 / 3) = 10" "(1000::real) powr (2 / 3) = 100"
proof -
  have "(1000::real) = 10 powr 3" by simp
  then have "(1000::real) powr (1 / 3) = (10 powr 3) powr (1 / 3)"
    "(1000::real) powr (2 / 3) = (10 powr 3) powr (2 / 3)" by simp_all
  then show "(1000::real) powr (1 / 3) = 10" "(1000::real) powr (2 / 3) = 100"
    by (simp_all only: powr_powr) simp_all
qed

lemma upt_small: "[Suc 0..<3] = [1, 2]"
  by code_simp

text \<open>
  C2. The literal cases of the specification: the four lists expand as given, and \<open>2R\<close>
  alone and \<open>10 M\<close> are malformed input.
\<close>

theorem shortcut_expansion_cases:
  "parse_list ''1 3M 2r'' = Inr [Value 1, Value 3, Value 3, Value 3]
   \<and> parse_list ''1 2R 2I 2.5'' = Inr [Value 1, Value 1, Value 1, Value 1.5, Value 2, Value 2.5]
   \<and> parse_list ''1 2j 4'' = Inr [Value 1, Jump, Jump, Value 4]
   \<and> parse_list ''0.01 2ILOG 10'' = Inr [Value 0.01, Value 0.1, Value 1, Value 10]
   \<and> parse_list ''2R'' = Inl MalformedInputError
   \<and> parse_list ''10 M'' = Inl MalformedInputError"
proof -
  have l1: "lex_words (split_words [] ''1 3M 2r'')
      = Inr [Number 1, Shortcut (Some 3) MULTIPLY, Shortcut (Some 2) REPEAT]"
    by code_simp
  have l2: "lex_words (split_words [] ''1 2R 2I 2.5'')
      = Inr [Number 1, Shortcut (Some 2) REPEAT, Shortcut (Some 2) INTERPOLATE, Number (5 / 2)]"
    by code_simp
  have l3: "lex_words (split_words [] ''1 2j 4'') = Inr [Number 1, Shortcut (Some 2) JUMP, Number 4]"
    by code_simp
  have l4: "lex_words (split_words [] ''0.01 2ILOG 10'')
      = Inr [Number (1 / 100), Shortcut (Some 2) LOG_INTERPOLATE, Number 10]"
    by code_simp
  have l5: "lex_words (split_words [] ''2R'') = Inr [Shortcut (Some 2) REPEAT]"
    by code_simp
  have l6: "lex_words (split_words [] ''10 M'') = Inr [Number 10, Shortcut None MULTIPLY]"
    by code_simp
  have r2: "replicate 2 x = [x, x]" for x :: entry by (simp add: numeral_2_eq_2)
  have c1: "parse_list ''1 3M 2r'' = Inr [Value 1, Value 3, Value 3, Value 3]"
    unfolding parse_list_def l1
    by (simp add: previous_value_def count_or_one_def r2)
  have c2: "parse_list ''1 2R 2I 2.5''
      = Inr [Value 1, Value 1, Value 1, Value 1.5, Value 2, Value 2.5]"
    unfolding parse_list_def l2
    by (simp add: previous_value_def count_or_one_def r2 linear_points_def
        upt_small)
  have c3: "parse_list ''1 2j 4'' = Inr [Value 1, Jump, Jump, Value 4]"
    unfolding parse_list_def l3
    by (simp add: count_or_one_def r2)
  have c4: "parse_list ''0.01 2ILOG 10'' = Inr [Value 0.01, Value 0.1, Value 1, Value 10]"
    unfolding parse_list_def l4
    by (simp add: previous_value_def count_or_one_def log_points_def
        upt_small cube_roots)
  have c5: "parse_list ''2R'' = Inl MalformedInputError"
    unfolding parse_list_def l5
    by (simp add: previous_value_def)
  have c6: "parse_list ''10 M'' = Inl MalformedInputError"
    unfolding parse_list_def l6 by simp
  from c1 c2 c3 c4 c5 c6 show ?thesis by (intro conjI)
qed


section \<open>Further properties\<close>

subsection \<open>In-place composition\<close>

lemma py_and_leaf: "isinstance x ''UnitHalfSpace'' \<Longrightarrow> py_and x other = Inl TypeError"
  and py_or_leaf: "isinstance x ''UnitHalfSpace'' \<Longrightarrow> py_or x other = Inl TypeError"
  and py_invert_leaf: "isinstance x ''UnitHalfSpace'' \<Longrightarrow> py_invert g x = Inl TypeError"
  by (simp_all add: py_and_def py_or_def py_invert_def isinstance_def)

text \<open>
  With these rules no call of \<open>&=\<close> returns: a leaf operand has no \<open>&\<close> and no \<open>~\<close>, and
  behind the recursion into the right subtree stands the call of a method the class does
  not have.
\<close>

lemma hs_iand_raises: "\<exists>err. fst (hs_iand g self other) = Inl err"
proof (induction g self other rule: hs_iand.induct)
  case (1 g left operator right node cell other)
  show ?case
  proof (cases "isinstance other ''HalfSpace''")
    case False
    then show ?thesis by simp
  next
    case other: True
    show ?thesis
    proof (cases "isinstance left ''UnitHalfSpace''
        \<and> ((right \<noteq> PyNone \<and> isinstance right ''UnitHalfSpace'') \<or> right = PyNone)")
      case True
      then show ?thesis
        using other py_and_leaf [of right other] py_invert_leaf [of left g]
        by (cases "right = PyNone") (auto simp: Let_def)
    next
      case False
      show ?thesis
      proof (cases "isinstance right ''HalfSpace''")
        case True
        with 1 [OF _ refl refl _ ] other False
        obtain err where "fst (hs_iand g right other) = Inl err" by auto
        with other False True show ?thesis
          by (cases "hs_iand g right other") (auto simp: Let_def)
      next
        case r: False
        with other False show ?thesis by (auto simp: Let_def)
      qed
    qed
  qed
qed simp_all


text \<open>The same holds for \<open>|=\<close>.\<close>

lemma hs_ior_raises: "\<exists>err. fst (hs_ior g self other) = Inl err"
proof (induction g self other rule: hs_ior.induct)
  case (1 g left operator right node cell other)
  show ?case
  proof (cases "isinstance other ''HalfSpace''")
    case False
    then show ?thesis by simp
  next
    case other: True
    show ?thesis
    proof (cases "isinstance left ''UnitHalfSpace''
        \<and> ((right \<noteq> PyNone \<and> isinstance right ''UnitHalfSpace'') \<or> right = PyNone)")
      case True
      then show ?thesis
        using other py_or_leaf [of right other] py_invert_leaf [of left g]
        by (cases "right = PyNone") (auto simp: Let_def)
    next
      case False
      show ?thesis
      proof (cases "isinstance right ''HalfSpace''")
        case True
        with 1 [OF _ refl refl _ ] other False
        obtain err where "fst (hs_ior g right other) = Inl err" by auto
        with other False True show ?thesis
          by (cases "hs_ior g right other") (auto simp: Let_def)
      next
        case r: False
        with other False show ?thesis by (auto simp: Let_def)
      qed
    qed
  qed
qed simp_all



subsection \<open>The operator slot left alone\<close>

text \<open>Slots that already show a union, a complement and an intersection.\<close>

lemma update_operator_matching_unchanged_witness:
  "update_operator UNION (Some ['' '', '':'', '' '']) = (Inr (), Some ['' '', '':'', '' ''])
   \<and> update_operator COMPLEMENT (Some [''#'']) = (Inr (), Some [''#''])
   \<and> update_operator INTERSECTION (Some ['' '']) = (Inr (), Some ['' ''])"
proof -
  have "CHR '':'' \<in> set (padding_format ['' '', '':'', '' ''])"
    "CHR ''#'' \<in> set (padding_format [''#''])"
    "isspace (padding_format ['' ''])"
    by (simp_all add: padding_format_def isspace_def is_whitespace_def)
  then show ?thesis
    using update_operator_matching_unchanged [of UNION "['' '', '':'', '' '']"]
      update_operator_matching_unchanged [of COMPLEMENT "[''#'']"]
      update_operator_matching_unchanged [of INTERSECTION "['' '']"]
    by simp
qed

subsection \<open>The shortcut tests\<close>

lemma square_root_100: "(100::real) powr (1 / 2) = 10"
proof -
  have "(100::real) = 10 powr 2" by simp
  then have "(100::real) powr (1 / 2) = (10 powr 2) powr (1 / 2)" by simp
  then show ?thesis by (simp only: powr_powr) simp
qed

lemma upt_one: "[Suc 0..<2] = [1]"
  by code_simp

lemma replicate_small: "replicate 3 x = [x, x, x]" "replicate 2 x = [x, x]"
  by (simp_all add: numeral_3_eq_3 numeral_2_eq_2)

lemmas expand_eval = parse_list_def previous_value_def count_or_one_def linear_points_def
  log_points_def upt_small upt_one replicate_small

text \<open>
  The other lists of the test \<open>test_shortcut_expansion\<close>: the expander modelled from the
  specification gives the test's answers for all of them.
\<close>

lemma shortcut_expansion_valid_tests:
  "parse_list ''1 3M I 4'' = Inr [Value 1, Value 3, Value 3.5, Value 4]
   \<and> parse_list ''1 3M 3M'' = Inr [Value 1, Value 3, Value 9]
   \<and> parse_list ''1 R 2m'' = Inr [Value 1, Value 1, Value 2]
   \<and> parse_list ''1 R R'' = Inr [Value 1, Value 1, Value 1]
   \<and> parse_list ''1 2i 4 3m'' = Inr [Value 1, Value 2, Value 3, Value 4, Value 12]
   \<and> parse_list ''1 i 3'' = Inr [Value 1, Value 2, Value 3]
   \<and> parse_list ''1 ilog 100'' = Inr [Value 1, Value 10, Value 100]
   \<and> parse_list ''1 2i 4 2i 10''
       = Inr [Value 1, Value 2, Value 3, Value 4, Value 6, Value 8, Value 10]
   \<and> parse_list ''1 j'' = Inr [Value 1, Jump]"
proof -
  have l1: "lex_words (split_words [] ''1 3M I 4'')
      = Inr [Number 1, Shortcut (Some 3) MULTIPLY, Shortcut None INTERPOLATE, Number 4]"
    by code_simp
  have l2: "lex_words (split_words [] ''1 3M 3M'')
      = Inr [Number 1, Shortcut (Some 3) MULTIPLY, Shortcut (Some 3) MULTIPLY]"
    by code_simp
  have l3: "lex_words (split_words [] ''1 R 2m'')
      = Inr [Number 1, Shortcut None REPEAT, Shortcut (Some 2) MULTIPLY]"
    by code_simp
  have l4: "lex_words (split_words [] ''1 R R'')
      = Inr [Number 1, Shortcut None REPEAT, Shortcut None REPEAT]"
    by code_simp
  have l5: "lex_words (split_words [] ''1 2i 4 3m'')
      = Inr [Number 1, Shortcut (Some 2) INTERPOLATE, Number 4, Shortcut (Some 3) MULTIPLY]"
    by code_simp
  have l6: "lex_words (split_words [] ''1 i 3'')
      = Inr [Number 1, Shortcut None INTERPOLATE, Number 3]"
    by code_simp
  have l7: "lex_words (split_words [] ''1 ilog 100'')
      = Inr [Number 1, Shortcut None LOG_INTERPOLATE, Number 100]"
    by code_simp
  have l8: "lex_words (split_words [] ''1 2i 4 2i 10'')
      = Inr [Number 1, Shortcut (Some 2) INTERPOLATE, Number 4,
             Shortcut (Some 2) INTERPOLATE, Number 10]"
    by code_simp
  have l9: "lex_words (split_words [] ''1 j'') = Inr [Number 1, Shortcut None JUMP]"
    by code_simp
  have c1: "parse_list ''1 3M I 4'' = Inr [Value 1, Value 3, Value 3.5, Value 4]"
    unfolding parse_list_def l1 by (simp add: expand_eval)
  have c2: "parse_list ''1 3M 3M'' = Inr [Value 1, Value 3, Value 9]"
    unfolding parse_list_def l2 by (simp add: expand_eval)
  have c3: "parse_list ''1 R 2m'' = Inr [Value 1, Value 1, Value 2]"
    unfolding parse_list_def l3 by (simp add: expand_eval)
  have c4: "parse_list ''1 R R'' = Inr [Value 1, Value 1, Value 1]"
    unfolding parse_list_def l4 by (simp add: expand_eval)
  have c5: "parse_list ''1 2i 4 3m'' = Inr [Value 1, Value 2, Value 3, Value 4, Value 12]"
    unfolding parse_list_def l5 by (simp add: expand_eval)
  have c6: "parse_list ''1 i 3'' = Inr [Value 1, Value 2, Value 3]"
    unfolding parse_list_def l6 by (simp add: expand_eval)
  have c7: "parse_list ''1 ilog 100'' = Inr [Value 1, Value 10, Value 100]"
    unfolding parse_list_def l7 by (simp add: expand_eval square_root_100)
  have c8: "parse_list ''1 2i 4 2i 10''
       = Inr [Value 1, Value 2, Value 3, Value 4, Value 6, Value 8, Value 10]"
    unfolding parse_list_def l8 by (simp add: expand_eval)
  have c9: "parse_list ''1 j'' = Inr [Value 1, Jump]"
    unfolding parse_list_def l9 by (simp add: expand_eval)
  from c1 c2 c3 c4 c5 c6 c7 c8 c9 show ?thesis by (intro conjI)
qed

text \<open>The lists the test expects to be refused.\<close>

lemma shortcut_expansion_invalid_tests:
  "parse_list ''3J 4R'' = Inl MalformedInputError
   \<and> parse_list ''1 4I 3M'' = Inl MalformedInputError
   \<and> parse_list ''1 4I J'' = Inl MalformedInputError
   \<and> parse_list ''1 2Ilog J'' = Inl MalformedInputError
   \<and> parse_list ''J 2Ilog 5'' = Inl MalformedInputError
   \<and> parse_list ''3J 2M'' = Inl MalformedInputError"
proof -
  have l1: "lex_words (split_words [] ''3J 4R'')
      = Inr [Shortcut (Some 3) JUMP, Shortcut (Some 4) REPEAT]"
    by code_simp
  have l2: "lex_words (split_words [] ''1 4I 3M'')
      = Inr [Number 1, Shortcut (Some 4) INTERPOLATE, Shortcut (Some 3) MULTIPLY]"
    by code_simp
  have l3: "lex_words (split_words [] ''1 4I J'')
      = Inr [Number 1, Shortcut (Some 4) INTERPOLATE, Shortcut None JUMP]"
    by code_simp
  have l4: "lex_words (split_words [] ''1 2Ilog J'')
      = Inr [Number 1, Shortcut (Some 2) LOG_INTERPOLATE, Shortcut None JUMP]"
    by code_simp
  have l5: "lex_words (split_words [] ''J 2Ilog 5'')
      = Inr [Shortcut None JUMP, Shortcut (Some 2) LOG_INTERPOLATE, Number 5]"
    by code_simp
  have l6: "lex_words (split_words [] ''3J 2M'')
      = Inr [Shortcut (Some 3) JUMP, Shortcut (Some 2) MULTIPLY]"
    by code_simp
  have c1: "parse_list ''3J 4R'' = Inl MalformedInputError"
    unfolding parse_list_def l1 by (simp add: expand_eval)
  have c2: "parse_list ''1 4I 3M'' = Inl MalformedInputError"
    unfolding parse_list_def l2 by (simp add: expand_eval)
  have c3: "parse_list ''1 4I J'' = Inl MalformedInputError"
    unfolding parse_list_def l3 by (simp add: expand_eval)
  have c4: "parse_list ''1 2Ilog J'' = Inl MalformedInputError"
    unfolding parse_list_def l4 by (simp add: expand_eval)
  have c5: "parse_list ''J 2Ilog 5'' = Inl MalformedInputError"
    unfolding parse_list_def l5 by (simp add: expand_eval)
  have c6: "parse_list ''3J 2M'' = Inl MalformedInputError"
    unfolding parse_list_def l6 by (simp add: expand_eval)
  from c1 c2 c3 c4 c5 c6 show ?thesis by (intro conjI)
qed


end
